theory Spec2Isabelle
  imports Complex_Main "HOL-Library.Word" "HOL-Library.Sublist"
begin

section \<open>The chat client's session controller (src/src/App.jsx)\<close>

text \<open>
  The component \<open>App\<close> keeps its state in seven \<open>useState\<close> cells and changes it in
  event handlers. Two handlers are \<open>async\<close>: they run up to an \<open>await\<close> on an axios
  call, and their continuation runs when the call has settled. The model passes the state
  explicitly; everything the handlers read from outside (the outcome of an HTTP call, the
  answer to \<open>confirm\<close>, the reading of \<open>Date.now()\<close>) is an argument.
  What touches the page only (\<open>preventDefault\<close>, scrolling, the focus of the input field)
  and the console log is left out.
  The second source file (src/unnamed/part\_000) has the same handlers, line for line,
  under a different view.
\<close>

subsection \<open>JavaScript strings\<close>

text \<open>
  A JavaScript string is a sequence of 16-bit code units. \<open>js\<close> embeds a literal of the
  source (all of them are ASCII).
\<close>

type_synonym jsstring = "16 word list"

definition js :: "string \<Rightarrow> jsstring" where
  "js s = map (\<lambda>c. of_nat (of_char c)) s"

text \<open>
  \<open>String.prototype.trim\<close> removes the WhiteSpace and LineTerminator code points of
  ECMAScript from both ends: TAB, LF, VT, FF, CR, SP, NBSP, the Unicode space separators,
  LS, PS and the byte order mark.
\<close>

definition isWhiteSpace :: "16 word \<Rightarrow> bool" where
  "isWhiteSpace c = (c \<in> set [0x09, 0x0A, 0x0B, 0x0C, 0x0D, 0x20, 0xA0, 0x1680,
     0x2000, 0x2001, 0x2002, 0x2003, 0x2004, 0x2005, 0x2006, 0x2007, 0x2008, 0x2009, 0x200A,
     0x2028, 0x2029, 0x202F, 0x205F, 0x3000, 0xFEFF])"

definition trim :: "jsstring \<Rightarrow> jsstring" where
  "trim s = rev (dropWhile isWhiteSpace (rev (dropWhile isWhiteSpace s)))"

text \<open>A string is falsy exactly when it is empty; \<open>undefined\<close> (here \<open>None\<close>) is falsy.\<close>

definition truthy :: "jsstring option \<Rightarrow> bool" where
  "truthy v = (case v of None \<Rightarrow> False | Some s \<Rightarrow> s \<noteq> [])"

subsection \<open>Session tokens\<close>

text \<open>
  The template literal \<open>`session_${Date.now()}`\<close> (lines 16 and 123) renders the clock
  reading in decimal. \<open>Date.now()\<close> is an integral number of milliseconds of magnitude at
  most 8.64e15, where the conversion of a Number to a string is its plain decimal
  notation, with a leading minus sign below zero.
\<close>

fun digits :: "nat \<Rightarrow> jsstring" where
  "digits n = (if n < 10 then [of_nat (48 + n)]
               else digits (n div 10) @ [of_nat (48 + n mod 10)])"

declare digits.simps [simp del]

definition numberToString :: "int \<Rightarrow> jsstring" where
  "numberToString n = (if n < 0 then js ''-'' @ digits (nat (- n)) else digits (nat n))"

definition newSessionId :: "int \<Rightarrow> jsstring" where
  "newSessionId now = js ''session_'' @ numberToString now"

subsection \<open>The state of the component\<close>

datatype role = User | Assistant | Error

record message =
  role :: role
  content :: jsstring
  modelName :: "jsstring option"

text \<open>
  The settings are stored and forwarded, never computed with, so a Number is modelled by
  the value its literal denotes.
\<close>

record generation_settings =
  maxLength :: int
  temperature :: real
  topP :: real

record state =
  messages :: "message list"
  input :: jsstring
  isLoading :: bool
  sessionId :: jsstring
  showSettings :: bool
  settings :: generation_settings
  error :: "jsstring option"

text \<open>Lines 13 to 23: the initial values of the cells, at the clock reading \<open>now\<close>.\<close>

definition App_init :: "int \<Rightarrow> state" where
  "App_init now =
     \<lparr>messages = [], input = [], isLoading = False, sessionId = newSessionId now,
      showSettings = False,
      settings = \<lparr>maxLength = 512, temperature = 7 / 10, topP = 9 / 10\<rparr>,
      error = None\<rparr>"

subsection \<open>The remote API\<close>

text \<open>
  The body of \<open>POST /api/chat\<close> with the timeout option of the call, and what the handlers
  read of a reply and of the error of a rejected call.
\<close>

record chat_request =
  req_message :: jsstring
  req_sessionId :: jsstring
  req_options :: generation_settings
  req_timeout :: nat

record chat_reply =
  reply_response :: jsstring
  reply_modelName :: "jsstring option"

record error_data =
  data_message :: "jsstring option"

record error_response =
  resp_status :: int
  resp_data :: "error_data option"

record axios_error =
  err_code :: "jsstring option"
  err_response :: "error_response option"

datatype request =
    GetHealth
  | PostChat chat_request
  | DeleteChat jsstring

subsection \<open>checkHealth (lines 41 to 50)\<close>

definition checkHealth :: "axios_error + unit \<Rightarrow> state \<Rightarrow> state" where
  "checkHealth r st =
     (case r of
        Inr _ \<Rightarrow> st\<lparr>error := None\<rparr>
      | Inl _ \<Rightarrow> st\<lparr>error :=
          Some (js ''Unable to connect to server. Please check if the backend is running.'')\<rparr>)"

subsection \<open>sendMessage (lines 52 to 116)\<close>

text \<open>\<open>err.response?.status\<close> and \<open>err.response?.data?.message\<close>.\<close>

definition response_status :: "axios_error \<Rightarrow> int option" where
  "response_status err = map_option resp_status (err_response err)"

definition response_message :: "axios_error \<Rightarrow> jsstring option" where
  "response_message err =
     (case err_response err of
        None \<Rightarrow> None
      | Some r \<Rightarrow> (case resp_data r of None \<Rightarrow> None | Some d \<Rightarrow> data_message d))"

text \<open>Lines 88 to 100: the text built in the \<open>catch\<close> block.\<close>

definition errorMessage :: "axios_error \<Rightarrow> jsstring" where
  "errorMessage err =
     js ''Failed to get response. '' @
     (if err_code err = Some (js ''ECONNABORTED'') then
        js ''Request timed out. The model might be taking too long to respond.''
      else if response_status err = Some 429 then
        js ''Too many requests. Please wait a moment and try again.''
      else if truthy (response_message err) then
        the (response_message err)
      else if err_response err = None then
        js ''Cannot connect to server. Please check if the backend is running.''
      else
        js ''Please try again.'')"

text \<open>
  Lines 53 to 74: the handler up to its \<open>await\<close>. It returns the request it has issued,
  if any.
\<close>

definition sendMessage_dispatch :: "state \<Rightarrow> state \<times> chat_request option" where
  "sendMessage_dispatch st =
     (if trim (input st) = [] \<or> isLoading st then (st, None)
      else
        let userMessage = trim (input st) in
        (st\<lparr>input := [], error := None,
            messages := messages st @ [\<lparr>role = User, content = userMessage, modelName = None\<rparr>],
            isLoading := True\<rparr>,
         Some \<lparr>req_message = userMessage, req_sessionId = sessionId st,
               req_options = settings st, req_timeout = 60000\<rparr>))"

text \<open>
  Lines 76 to 115: the continuation, on the state current when the call settles. The
  updates of \<open>messages\<close> are functional (\<open>prev => [...prev, m]\<close>): they append to the list
  as it is then.
\<close>

definition sendMessage_settle :: "axios_error + chat_reply \<Rightarrow> state \<Rightarrow> state" where
  "sendMessage_settle r st =
     (case r of
        Inr reply \<Rightarrow>
          st\<lparr>messages := messages st @
                [\<lparr>role = Assistant, content = reply_response reply,
                  modelName = reply_modelName reply\<rparr>],
             isLoading := False\<rparr>
      | Inl err \<Rightarrow>
          st\<lparr>error := Some (errorMessage err),
             messages := messages st @
                [\<lparr>role = Error, content = errorMessage err, modelName = None\<rparr>],
             isLoading := False\<rparr>)"

text \<open>
  The whole handler when nothing else runs in between: \<open>net\<close> answers the request. The
  second component lists the requests issued.
\<close>

definition sendMessage ::
  "(chat_request \<Rightarrow> axios_error + chat_reply) \<Rightarrow> state \<Rightarrow> state \<times> request list" where
  "sendMessage net st =
     (case sendMessage_dispatch st of
        (st', None) \<Rightarrow> (st', [])
      | (st', Some rq) \<Rightarrow> (sendMessage_settle (net rq) st', [PostChat rq]))"

subsection \<open>clearChat (lines 118 to 129)\<close>

text \<open>
  Lines 122 to 126: the continuation after \<open>await axios.delete(...)\<close>. The three setters
  are inside the \<open>try\<close>, after the \<open>await\<close>; the \<open>catch\<close> only logs.
\<close>

definition clearChat_settle :: "axios_error + unit \<Rightarrow> int \<Rightarrow> state \<Rightarrow> state" where
  "clearChat_settle r now st =
     (case r of
        Inr _ \<Rightarrow> st\<lparr>messages := [], sessionId := newSessionId now, error := None\<rparr>
      | Inl _ \<Rightarrow> st)"

text \<open>
  The whole handler: \<open>confirmed\<close> is the answer to \<open>confirm('Clear all messages?')\<close>,
  \<open>r\<close> the outcome of the DELETE and \<open>now\<close> the reading of \<open>Date.now()\<close> at line 123.
\<close>

definition clearChat :: "bool \<Rightarrow> axios_error + unit \<Rightarrow> int \<Rightarrow> state \<Rightarrow> state \<times> request list" where
  "clearChat confirmed r now st =
     (if confirmed then (clearChat_settle r now st, [DeleteChat (sessionId st)])
      else (st, []))"

subsection \<open>The settings panel (lines 176, 190 and 204)\<close>

text \<open>
  Each slider calls \<open>setSettings({...settings, field: v})\<close> with the parsed value of the
  widget.
\<close>

definition setSettings :: "generation_settings \<Rightarrow> state \<Rightarrow> state" where
  "setSettings v st = st\<lparr>settings := v\<rparr>"

definition onChange_maxLength :: "int \<Rightarrow> state \<Rightarrow> state" where
  "onChange_maxLength v st = setSettings ((settings st)\<lparr>maxLength := v\<rparr>) st"

definition onChange_temperature :: "real \<Rightarrow> state \<Rightarrow> state" where
  "onChange_temperature v st = setSettings ((settings st)\<lparr>temperature := v\<rparr>) st"

definition onChange_topP :: "real \<Rightarrow> state \<Rightarrow> state" where
  "onChange_topP v st = setSettings ((settings st)\<lparr>topP := v\<rparr>) st"

text \<open>
  A patch names a value for any subset of the three fields; it is applied by the handlers
  of the fields it names.
\<close>

record settings_patch =
  patch_maxLength :: "int option"
  patch_temperature :: "real option"
  patch_topP :: "real option"

definition apply_opt :: "('a \<Rightarrow> state \<Rightarrow> state) \<Rightarrow> 'a option \<Rightarrow> state \<Rightarrow> state" where
  "apply_opt h v st = (case v of None \<Rightarrow> st | Some x \<Rightarrow> h x st)"

definition apply_patch :: "settings_patch \<Rightarrow> state \<Rightarrow> state" where
  "apply_patch p st =
     apply_opt onChange_topP (patch_topP p)
       (apply_opt onChange_temperature (patch_temperature p)
          (apply_opt onChange_maxLength (patch_maxLength p) st))"

subsection \<open>The error taxonomy of the specification\<close>

text \<open>
  The specification describes the \<open>catch\<close> block as a function \<open>classify\<close> on five
  categories of failure. \<open>spec_classify\<close> is its table, written from the specification;
  \<open>outcome_of\<close> is the category of an error, that is the branch of the chain of lines 90
  to 100 that handles it.
\<close>

datatype outcome = timeout | rateLimited | serverMessage jsstring | unreachable | unknown

definition spec_classify :: "outcome \<Rightarrow> jsstring" where
  "spec_classify c =
     (case c of
        timeout \<Rightarrow> js ''Request timed out. The model might be taking too long to respond.''
      | rateLimited \<Rightarrow> js ''Too many requests. Please wait a moment and try again.''
      | serverMessage text \<Rightarrow> text
      | unreachable \<Rightarrow> js ''Cannot connect to server. Please check if the backend is running.''
      | unknown \<Rightarrow> js ''Please try again.'')"

definition outcome_of :: "axios_error \<Rightarrow> outcome" where
  "outcome_of err =
     (if err_code err = Some (js ''ECONNABORTED'') then timeout
      else if response_status err = Some 429 then rateLimited
      else if truthy (response_message err) then serverMessage (the (response_message err))
      else if err_response err = None then unreachable
      else unknown)"

subsection \<open>The handlers as events\<close>

text \<open>
  Everything that changes a cell of the state, one event for each uninterrupted piece of
  a handler: the setters called from the view (\<open>setInput\<close>, \<open>setShowSettings\<close>, the three
  sliders, and \<open>setError(null)\<close> of the banner in part\_000), the health check when its
  call has settled, and the two halves of \<open>sendMessage\<close> and of \<open>clearChat\<close>.
\<close>

datatype event =
    InputChanged jsstring
  | SettingsToggled
  | MaxLengthChanged int
  | TemperatureChanged real
  | TopPChanged real
  | ErrorDismissed
  | HealthSettled "axios_error + unit"
  | Submitted
  | PostSettled "axios_error + chat_reply"
  | ClearClicked bool
  | DeleteSettled "axios_error + unit" int

fun step :: "event \<Rightarrow> state \<Rightarrow> state" where
  "step (InputChanged v) st = st\<lparr>input := v\<rparr>"
| "step SettingsToggled st = st\<lparr>showSettings := \<not> showSettings st\<rparr>"
| "step (MaxLengthChanged v) st = onChange_maxLength v st"
| "step (TemperatureChanged v) st = onChange_temperature v st"
| "step (TopPChanged v) st = onChange_topP v st"
| "step ErrorDismissed st = st\<lparr>error := None\<rparr>"
| "step (HealthSettled r) st = checkHealth r st"
| "step Submitted st = fst (sendMessage_dispatch st)"
| "step (PostSettled r) st = sendMessage_settle r st"
| "step (ClearClicked confirmed) st = st"
| "step (DeleteSettled r now) st = clearChat_settle r now st"

text \<open>The one event that empties the conversation: a DELETE that succeeded.\<close>

fun is_clear :: "event \<Rightarrow> bool" where
  "is_clear (DeleteSettled (Inr _) _) = True"
| "is_clear _ = False"

text \<open>A sequence of events, oldest first.\<close>

fun run :: "event list \<Rightarrow> state \<Rightarrow> state" where
  "run [] st = st"
| "run (e # es) st = run es (step e st)"

subsection \<open>Sample states, replies and errors\<close>

text \<open>
  The scenarios of the specification: a first message \<open>Hello\<close> typed with blanks around
  it, its reply, a conversation of three messages, and three ways a call fails (no answer
  within the 60 seconds, no connection, an error body with a text).
\<close>

definition hello_state :: state where
  "hello_state = (App_init 1700000000000)\<lparr>input := js '' Hello ''\<rparr>"

definition hello_request :: chat_request where
  "hello_request =
     \<lparr>req_message = js ''Hello'', req_sessionId = newSessionId 1700000000000,
      req_options = \<lparr>maxLength = 512, temperature = 7 / 10, topP = 9 / 10\<rparr>,
      req_timeout = 60000\<rparr>"

definition hello_reply :: chat_reply where
  "hello_reply = \<lparr>reply_response = js ''Hi there'', reply_modelName = Some (js ''legal-v1'')\<rparr>"

definition three_messages :: state where
  "three_messages = (App_init 1700000000000)\<lparr>messages :=
      [\<lparr>role = User, content = js ''Hello'', modelName = None\<rparr>,
       \<lparr>role = Assistant, content = js ''Hi there'', modelName = Some (js ''legal-v1'')\<rparr>,
       \<lparr>role = User, content = js ''Bye'', modelName = None\<rparr>]\<rparr>"

definition timeout_error :: axios_error where
  "timeout_error = \<lparr>err_code = Some (js ''ECONNABORTED''), err_response = None\<rparr>"

definition network_error :: axios_error where
  "network_error = \<lparr>err_code = Some (js ''ERR_NETWORK''), err_response = None\<rparr>"

definition server_error :: axios_error where
  "server_error =
     \<lparr>err_code = Some (js ''ERR_BAD_RESPONSE''),
      err_response = Some \<lparr>resp_status = 500,
        resp_data = Some \<lparr>data_message = Some (js ''Model overloaded'')\<rparr>\<rparr>\<rparr>"

section \<open>Properties\<close>

subsection \<open>Auxiliary facts\<close>

lemma trim_hello: "trim (js '' Hello '') = js ''Hello''"
  by (simp add: trim_def js_def isWhiteSpace_def)

lemma errorMessage_timeout:
  "errorMessage timeout_error =
     js ''Failed to get response. Request timed out. The model might be taking too long to respond.''"
  by (simp add: errorMessage_def timeout_error_def js_def)

text \<open>Every category of the taxonomy is the category of some error.\<close>

lemma outcome_of_samples:
  "outcome_of timeout_error = timeout"
  "outcome_of network_error = unreachable"
  "outcome_of \<lparr>err_code = None, err_response = Some \<lparr>resp_status = 429, resp_data = None\<rparr>\<rparr>
     = rateLimited"
  "outcome_of \<lparr>err_code = None, err_response = Some \<lparr>resp_status = 500, resp_data = None\<rparr>\<rparr>
     = unknown"
  by (simp_all add: outcome_of_def timeout_error_def network_error_def response_status_def
      response_message_def truthy_def js_def)

text \<open>
  The decimal notation determines the number: reading the digits back gives it, and a
  minus sign is no digit.
\<close>

lemma digits_nonempty: "digits n \<noteq> []"
  by (subst digits.simps) simp

lemma unat_digit: "k < 10 \<Longrightarrow> unat (of_nat (48 + k) :: 16 word) = 48 + k"
  by (simp only: unat_of_nat) simp

lemma digits_value: "foldl (\<lambda>a c. 10 * a + (unat c - 48)) 0 (digits n) = n"
proof (induction n rule: digits.induct)
  case (1 n)
  show ?case
  proof (cases "n < 10")
    case True
    then show ?thesis
      by (subst digits.simps) (simp add: unat_digit del: of_nat_add)
  next
    case False
    then have "foldl (\<lambda>a c. 10 * a + (unat c - 48)) 0 (digits (n div 10)) = n div 10"
      using 1 by simp
    with False show ?thesis
      by (subst digits.simps) (simp add: unat_digit del: of_nat_add)
  qed
qed

lemma digits_inj: "digits m = digits n \<Longrightarrow> m = n"
  by (metis digits_value)

lemma digit_not_minus: "k < 10 \<Longrightarrow> (of_nat (48 + k) :: 16 word) \<noteq> 45"
proof
  assume k: "k < 10" and "(of_nat (48 + k) :: 16 word) = 45"
  then have "unat (of_nat (48 + k) :: 16 word) = unat (45 :: 16 word)" by (simp only:)
  with k show False by (simp only: unat_digit) simp
qed

lemma digits_no_minus: "45 \<notin> set (digits n)"
proof (induction n rule: digits.induct)
  case (1 n)
  show ?case
  proof (cases "n < 10")
    case True
    then show ?thesis using digit_not_minus[of n]
      by (subst digits.simps) (simp del: of_nat_add)
  next
    case False
    then show ?thesis using 1 digit_not_minus[of "n mod 10"]
      by (subst digits.simps) (simp del: of_nat_add)
  qed
qed

lemma hd_digits: "hd (digits k) \<noteq> 45"
  using digits_no_minus[of k] digits_nonempty[of k] by (cases "digits k") auto

lemma numberToString_inj:
  assumes e: "numberToString m = numberToString n"
  shows "m = n"
proof -
  consider "m < 0" "n < 0" | "m < 0" "\<not> n < 0" | "\<not> m < 0" "n < 0" | "\<not> m < 0" "\<not> n < 0"
    by blast
  then show ?thesis
  proof cases
    case 1
    with e have "digits (nat (- m)) = digits (nat (- n))" by (simp add: numberToString_def)
    then have "nat (- m) = nat (- n)" by (rule digits_inj)
    with 1 show ?thesis by simp
  next
    case 2
    with e have "digits (nat n) = js ''-'' @ digits (nat (- m))"
      by (simp add: numberToString_def)
    then have "hd (digits (nat n)) = 45" by (simp add: js_def)
    then show ?thesis using hd_digits by blast
  next
    case 3
    with e have "digits (nat m) = js ''-'' @ digits (nat (- n))"
      by (simp add: numberToString_def)
    then have "hd (digits (nat m)) = 45" by (simp add: js_def)
    then show ?thesis using hd_digits by blast
  next
    case 4
    with e have "digits (nat m) = digits (nat n)" by (simp add: numberToString_def)
    then have "nat m = nat n" by (rule digits_inj)
    with 4 show ?thesis by simp
  qed
qed

lemma newSessionId_inj: "newSessionId m = newSessionId n \<longleftrightarrow> m = n"
  by (auto simp: newSessionId_def dest: numberToString_inj)

lemma sessionId_three_messages: "sessionId three_messages = newSessionId 1700000000000"
  by (simp add: three_messages_def App_init_def)

text \<open>One event, then a sequence of events, on the list of messages.\<close>

lemma step_messages:
  "if is_clear e then messages (step e st) = [] else prefix (messages st) (messages (step e st))"
proof (cases e)
  case (DeleteSettled r now)
  then show ?thesis by (cases r) (simp_all add: clearChat_settle_def)
next
  case (PostSettled r)
  then show ?thesis by (cases r) (simp_all add: sendMessage_settle_def)
next
  case (HealthSettled r)
  then show ?thesis by (cases r) (simp_all add: checkHealth_def)
next
  case Submitted
  then show ?thesis by (simp add: sendMessage_dispatch_def Let_def)
qed (simp_all add: onChange_maxLength_def onChange_temperature_def onChange_topP_def
      setSettings_def)

lemma run_messages:
  "list_all (\<lambda>e. \<not> is_clear e) es \<Longrightarrow> prefix (messages st) (messages (run es st))"
proof (induction es arbitrary: st)
  case Nil
  then show ?case by simp
next
  case (Cons e es)
  from Cons.prems have "\<not> is_clear e" and r: "list_all (\<lambda>e. \<not> is_clear e) es" by simp_all
  then have "prefix (messages st) (messages (step e st))"
    using step_messages [of e st] by simp
  moreover have "prefix (messages (step e st)) (messages (run es (step e st)))"
    using Cons.IH [OF r] .
  ultimately show ?case by (auto intro: prefix_order.trans)
qed

subsection \<open>Rejected sends\<close>

text \<open>
  C2. A send while a request is pending, or with an input that is empty after trimming,
  changes nothing: the handler returns the state as it was (messages, sessionId, error,
  isLoading and every other cell) and issues no request.
\<close>

theorem sendMessage_rejected:
  assumes "trim (input st) = [] \<or> isLoading st"
  shows "sendMessage net st = (st, []) \<and> sendMessage_dispatch st = (st, None)"
  using assms by (simp add: sendMessage_def sendMessage_dispatch_def)

theorem sendMessage_rejected_witness:
  "(trim (input ((App_init 0)\<lparr>input := js ''  ''\<rparr>)) = [] \<or> isLoading ((App_init 0)\<lparr>input := js ''  ''\<rparr>))
   \<and> sendMessage (\<lambda>_. Inr hello_reply) ((App_init 0)\<lparr>input := js ''  ''\<rparr>)
       = ((App_init 0)\<lparr>input := js ''  ''\<rparr>, [])
   \<and> (trim (input (hello_state\<lparr>isLoading := True\<rparr>)) = [] \<or> isLoading (hello_state\<lparr>isLoading := True\<rparr>))
   \<and> sendMessage (\<lambda>_. Inr hello_reply) (hello_state\<lparr>isLoading := True\<rparr>)
       = (hello_state\<lparr>isLoading := True\<rparr>, [])"
proof -
  have a: "trim (input ((App_init 0)\<lparr>input := js ''  ''\<rparr>)) = []"
    by (simp add: trim_def js_def isWhiteSpace_def)
  have b: "isLoading (hello_state\<lparr>isLoading := True\<rparr>)" by simp
  show ?thesis
    using a b sendMessage_rejected [of "(App_init 0)\<lparr>input := js ''  ''\<rparr>" "\<lambda>_. Inr hello_reply"]
      sendMessage_rejected [of "hello_state\<lparr>isLoading := True\<rparr>" "\<lambda>_. Inr hello_reply"]
    by simp
qed

subsection \<open>A send that succeeds\<close>

text \<open>
  C3. For an input that is not empty after trimming, sent while no request is pending:
  up to the await the handler appends exactly one user message with the trimmed text,
  sets isLoading and issues one request; when the call settles with a reply of response
  \<open>r\<close> and model name \<open>m\<close> the continuation appends exactly one assistant message with
  that content and model name to the list as it is then, and resets isLoading; run without
  interruption, the conversation gains the user message followed by the assistant message
  and isLoading is false again.
\<close>

theorem sendMessage_success:
  assumes "trim (input st) \<noteq> []" and "\<not> isLoading st"
  shows "sendMessage_dispatch st =
           (st\<lparr>input := [], error := None,
               messages := messages st @ [\<lparr>role = User, content = trim (input st), modelName = None\<rparr>],
               isLoading := True\<rparr>,
            Some \<lparr>req_message = trim (input st), req_sessionId = sessionId st,
                  req_options = settings st, req_timeout = 60000\<rparr>)
       \<and> sendMessage_settle (Inr \<lparr>reply_response = r, reply_modelName = Some m\<rparr>) st2 =
           st2\<lparr>messages := messages st2 @ [\<lparr>role = Assistant, content = r, modelName = Some m\<rparr>],
               isLoading := False\<rparr>
       \<and> (net \<lparr>req_message = trim (input st), req_sessionId = sessionId st,
                req_options = settings st, req_timeout = 60000\<rparr>
             = Inr \<lparr>reply_response = r, reply_modelName = Some m\<rparr> \<longrightarrow>
           sendMessage net st =
             (st\<lparr>input := [], error := None,
                 messages := messages st @
                   [\<lparr>role = User, content = trim (input st), modelName = None\<rparr>,
                    \<lparr>role = Assistant, content = r, modelName = Some m\<rparr>],
                 isLoading := False\<rparr>,
              [PostChat \<lparr>req_message = trim (input st), req_sessionId = sessionId st,
                         req_options = settings st, req_timeout = 60000\<rparr>]))"
  using assms
  by (simp add: sendMessage_def sendMessage_dispatch_def sendMessage_settle_def Let_def)

theorem sendMessage_success_witness:
  "trim (input hello_state) \<noteq> [] \<and> \<not> isLoading hello_state
   \<and> (\<lambda>_. Inr hello_reply) hello_request = (Inr hello_reply :: axios_error + chat_reply)
   \<and> messages (fst (sendMessage_dispatch hello_state)) =
        [\<lparr>role = User, content = js ''Hello'', modelName = None\<rparr>]
   \<and> messages (fst (sendMessage (\<lambda>_. Inr hello_reply) hello_state)) =
        [\<lparr>role = User, content = js ''Hello'', modelName = None\<rparr>,
         \<lparr>role = Assistant, content = js ''Hi there'', modelName = Some (js ''legal-v1'')\<rparr>]
   \<and> \<not> isLoading (fst (sendMessage (\<lambda>_. Inr hello_reply) hello_state))
   \<and> snd (sendMessage (\<lambda>_. Inr hello_reply) hello_state) = [PostChat hello_request]"
proof -
  have i: "input hello_state = js '' Hello ''" "messages hello_state = []"
    "sessionId hello_state = newSessionId 1700000000000"
    "settings hello_state = \<lparr>maxLength = 512, temperature = 7 / 10, topP = 9 / 10\<rparr>"
    by (simp_all add: hello_state_def App_init_def)
  have a: "trim (input hello_state) \<noteq> []"
    by (simp only: i trim_hello) (simp add: js_def)
  have b: "\<not> isLoading hello_state" by (simp add: hello_state_def App_init_def)
  show ?thesis
    using a b sendMessage_success [OF a b, of "js ''Hi there''" "js ''legal-v1''" hello_state
        "\<lambda>_. Inr hello_reply"]
    by (simp add: i trim_hello hello_reply_def hello_request_def)
qed

subsection \<open>A send that fails\<close>

text \<open>
  C4. When the call of a send is rejected (which includes the timeout), the handler
  appends exactly one message of role Error whose content is the text built from the
  error, sets the error cell to the same text, resets isLoading, and has issued the one
  request only: nothing is sent again. The continuation does the same on whatever state is
  current when the call settles.
\<close>

theorem sendMessage_failure:
  assumes "trim (input st) \<noteq> []" and "\<not> isLoading st"
    and "net \<lparr>req_message = trim (input st), req_sessionId = sessionId st,
               req_options = settings st, req_timeout = 60000\<rparr> = Inl err"
  shows "sendMessage net st =
           (st\<lparr>input := [], error := Some (errorMessage err),
               messages := messages st @
                 [\<lparr>role = User, content = trim (input st), modelName = None\<rparr>,
                  \<lparr>role = Error, content = errorMessage err, modelName = None\<rparr>],
               isLoading := False\<rparr>,
            [PostChat \<lparr>req_message = trim (input st), req_sessionId = sessionId st,
                       req_options = settings st, req_timeout = 60000\<rparr>])
       \<and> sendMessage_settle (Inl err) st2 =
           st2\<lparr>error := Some (errorMessage err),
               messages := messages st2 @
                 [\<lparr>role = Error, content = errorMessage err, modelName = None\<rparr>],
               isLoading := False\<rparr>"
  using assms
  by (simp add: sendMessage_def sendMessage_dispatch_def sendMessage_settle_def Let_def)

theorem sendMessage_failure_witness:
  "trim (input hello_state) \<noteq> [] \<and> \<not> isLoading hello_state
   \<and> (\<lambda>_. Inl timeout_error) hello_request = (Inl timeout_error :: axios_error + chat_reply)
   \<and> messages (fst (sendMessage (\<lambda>_. Inl timeout_error) hello_state)) =
        [\<lparr>role = User, content = js ''Hello'', modelName = None\<rparr>,
         \<lparr>role = Error, content =
            js ''Failed to get response. Request timed out. The model might be taking too long to respond.'',
          modelName = None\<rparr>]
   \<and> error (fst (sendMessage (\<lambda>_. Inl timeout_error) hello_state)) =
        Some (js ''Failed to get response. Request timed out. The model might be taking too long to respond.'')
   \<and> \<not> isLoading (fst (sendMessage (\<lambda>_. Inl timeout_error) hello_state))
   \<and> snd (sendMessage (\<lambda>_. Inl timeout_error) hello_state) = [PostChat hello_request]"
proof -
  have i: "input hello_state = js '' Hello ''" "messages hello_state = []"
    "sessionId hello_state = newSessionId 1700000000000"
    "settings hello_state = \<lparr>maxLength = 512, temperature = 7 / 10, topP = 9 / 10\<rparr>"
    by (simp_all add: hello_state_def App_init_def)
  have a: "trim (input hello_state) \<noteq> []"
    by (simp only: i trim_hello) (simp add: js_def)
  have b: "\<not> isLoading hello_state" by (simp add: hello_state_def App_init_def)
  have c: "(\<lambda>_. Inl timeout_error)
      \<lparr>req_message = trim (input hello_state), req_sessionId = sessionId hello_state,
       req_options = settings hello_state, req_timeout = 60000\<rparr>
     = (Inl timeout_error :: axios_error + chat_reply)" by simp
  show ?thesis
    using a b sendMessage_failure [OF a b c, of hello_state]
    by (simp add: i trim_hello hello_request_def errorMessage_timeout)
qed

subsection \<open>The text of a failure\<close>

text \<open>
  C5. The text built for a failed send is a function of the error alone: the prefix
  \<open>Failed to get response. \<close> followed by the fixed text that the table of the
  specification gives for the category of the error; in the category serverMessage that
  text is the message of the remote body, unchanged (the branch is taken for a non-empty
  message only).
\<close>

theorem errorMessage_classify:
  "errorMessage err = js ''Failed to get response. '' @ spec_classify (outcome_of err)
   \<and> (outcome_of err = serverMessage text \<longrightarrow>
        response_message err = Some text \<and> text \<noteq> []
        \<and> errorMessage err = js ''Failed to get response. '' @ text)"
  by (auto simp: errorMessage_def outcome_of_def spec_classify_def truthy_def
      split: option.splits)

theorem errorMessage_classify_witness:
  "outcome_of server_error = serverMessage (js ''Model overloaded'')
   \<and> response_message server_error = Some (js ''Model overloaded'')
   \<and> errorMessage server_error = js ''Failed to get response. Model overloaded''"
proof -
  have a: "outcome_of server_error = serverMessage (js ''Model overloaded'')"
    by (simp add: outcome_of_def server_error_def response_status_def response_message_def
        truthy_def js_def)
  show ?thesis
    using a errorMessage_classify [of server_error "js ''Model overloaded''"]
    by (simp add: js_def spec_classify_def)
qed

subsection \<open>Clearing the conversation\<close>

text \<open>
  C1, as stated, fails on the code. With three messages in the conversation: when the
  DELETE is rejected nothing is reset; when the prompt is declined nothing is reset; and
  when the clock reads what it read for the current token, the new token equals the old
  one.
\<close>

theorem clearChat_regardless_counterexample:
  "\<not> (messages (fst (clearChat True (Inl network_error) 1700000000001 three_messages)) = []
      \<and> sessionId (fst (clearChat True (Inl network_error) 1700000000001 three_messages))
          \<noteq> sessionId three_messages
      \<and> error (fst (clearChat True (Inl network_error) 1700000000001 three_messages)) = None)
   \<and> \<not> (messages (fst (clearChat False (Inr ()) 1700000000001 three_messages)) = []
      \<and> sessionId (fst (clearChat False (Inr ()) 1700000000001 three_messages))
          \<noteq> sessionId three_messages
      \<and> error (fst (clearChat False (Inr ()) 1700000000001 three_messages)) = None)
   \<and> \<not> (messages (fst (clearChat True (Inr ()) 1700000000000 three_messages)) = []
      \<and> sessionId (fst (clearChat True (Inr ()) 1700000000000 three_messages))
          \<noteq> sessionId three_messages
      \<and> error (fst (clearChat True (Inr ()) 1700000000000 three_messages)) = None)"
  by (simp add: clearChat_def clearChat_settle_def sessionId_three_messages)

text \<open>
  C1, amended. When the prompt is confirmed and the DELETE succeeds, clearChat empties
  the list of messages, sets sessionId to the token of the current clock reading and
  clears the error, having issued the one DELETE for the old session; the new token
  differs from the old one whenever the old one was made from a different clock reading.
\<close>

theorem clearChat_confirmed_success:
  "clearChat True (Inr u) now st =
     (st\<lparr>messages := [], sessionId := newSessionId now, error := None\<rparr>,
      [DeleteChat (sessionId st)])
   \<and> (sessionId st = newSessionId t0 \<and> t0 \<noteq> now \<longrightarrow>
        sessionId (fst (clearChat True (Inr u) now st)) \<noteq> sessionId st)"
  by (simp add: clearChat_def clearChat_settle_def newSessionId_inj)

theorem clearChat_confirmed_success_witness:
  "sessionId three_messages = newSessionId 1700000000000
   \<and> (1700000000000 :: int) \<noteq> 1700000000001
   \<and> messages (fst (clearChat True (Inr ()) 1700000000001 three_messages)) = []
   \<and> error (fst (clearChat True (Inr ()) 1700000000001 three_messages)) = None
   \<and> sessionId (fst (clearChat True (Inr ()) 1700000000001 three_messages)) = newSessionId 1700000000001
   \<and> sessionId (fst (clearChat True (Inr ()) 1700000000001 three_messages))
        \<noteq> sessionId three_messages"
proof -
  note th = clearChat_confirmed_success [of "()" 1700000000001 three_messages 1700000000000]
  have h: "sessionId three_messages = newSessionId 1700000000000
      \<and> (1700000000000 :: int) \<noteq> 1700000000001"
    by (simp add: sessionId_three_messages)
  from th have e: "clearChat True (Inr ()) 1700000000001 three_messages =
     (three_messages\<lparr>messages := [], sessionId := newSessionId 1700000000001, error := None\<rparr>,
      [DeleteChat (sessionId three_messages)])" by (rule conjunct1)
  from th h have n: "sessionId (fst (clearChat True (Inr ()) 1700000000001 three_messages))
      \<noteq> sessionId three_messages" by blast
  from h e n show ?thesis by simp
qed

text \<open>
  C9. When the DELETE is rejected, clearChat changes no cell of the state: the three
  setters come after the await inside the try, and the catch only logs. This holds for
  the handler as a whole and for its continuation on any state current at that time.
\<close>

theorem clearChat_remote_failure:
  "clearChat True (Inl err) now st = (st, [DeleteChat (sessionId st)])
   \<and> fst (clearChat confirmed (Inl err) now st) = st
   \<and> clearChat_settle (Inl err) now st = st"
  by (simp add: clearChat_def clearChat_settle_def)

text \<open>
  C10. clearChat asks for confirmation first: declined, it issues no request and returns
  the state as it was (every cell); whenever it does anything at all, the prompt was
  confirmed.
\<close>

theorem clearChat_confirmation_gate:
  "clearChat False r now st = (st, [])
   \<and> (clearChat confirmed r now st \<noteq> (st, []) \<longrightarrow> confirmed)"
  by (simp add: clearChat_def)

theorem clearChat_confirmation_gate_witness:
  "clearChat True (Inr ()) 1700000000001 three_messages \<noteq> (three_messages, [])
   \<and> clearChat False (Inr ()) 1700000000001 three_messages = (three_messages, [])"
  using clearChat_confirmation_gate [of "Inr ()" 1700000000001 three_messages True]
  by (simp add: clearChat_def)

subsection \<open>Session tokens\<close>

text \<open>
  C6, as stated, fails on the code: a clear at the clock reading of the start issues the
  token of the start again.
\<close>

theorem newSessionId_collision_counterexample:
  "sessionId (fst (clearChat True (Inr ()) 1700000000000 (App_init 1700000000000)))
     = sessionId (App_init 1700000000000)"
  by (simp add: clearChat_def clearChat_settle_def App_init_def)

text \<open>
  C6, amended. The token is a function of the clock reading alone, and an injective one:
  the initial token and the token of every successful clear are the tokens of the
  readings at which they were made, and two tokens are equal exactly when their readings
  are.
\<close>

theorem newSessionId_distinct_readings:
  "(newSessionId t1 = newSessionId t2) = (t1 = t2)
   \<and> sessionId (App_init t1) = newSessionId t1
   \<and> sessionId (fst (clearChat True (Inr u) t2 st)) = newSessionId t2"
  by (simp add: newSessionId_inj clearChat_def clearChat_settle_def App_init_def)

subsection \<open>Settings\<close>

text \<open>
  C7. After the handlers of the fields named by a patch have run, the settings hold the
  patched value in each named field, as given (nothing is clamped), and the former value
  in every other field; no other cell of the state changes; and the settings of the
  initial state are maxLength 512, temperature 0.7 and topP 0.9.
\<close>

theorem settings_roundtrip:
  "settings (apply_patch p st) =
     \<lparr>maxLength = (case patch_maxLength p of None \<Rightarrow> maxLength (settings st) | Some v \<Rightarrow> v),
      temperature = (case patch_temperature p of None \<Rightarrow> temperature (settings st) | Some v \<Rightarrow> v),
      topP = (case patch_topP p of None \<Rightarrow> topP (settings st) | Some v \<Rightarrow> v)\<rparr>
   \<and> apply_patch p st = st\<lparr>settings := settings (apply_patch p st)\<rparr>
   \<and> settings (App_init now) = \<lparr>maxLength = 512, temperature = 7 / 10, topP = 9 / 10\<rparr>"
  by (simp add: apply_patch_def apply_opt_def onChange_maxLength_def onChange_temperature_def
      onChange_topP_def setSettings_def App_init_def split: option.splits)

subsection \<open>The list of messages\<close>

text \<open>
  C8. Every event either empties the list of messages (a clear whose DELETE succeeded,
  and only that) or leaves the former list as a prefix of the new one: unchanged, or with
  new messages at the end. So over any sequence of events without a successful clear the
  messages present at the start stay in place, in order. The same holds for the two
  asynchronous handlers run as a whole.
\<close>

theorem messages_append_only:
  "(if is_clear e then messages (step e st) = []
    else prefix (messages st) (messages (step e st)))
   \<and> (list_all (\<lambda>e. \<not> is_clear e) es \<longrightarrow> prefix (messages st) (messages (run es st)))
   \<and> prefix (messages st) (messages (fst (sendMessage net st)))
   \<and> (messages (fst (clearChat confirmed r now st)) = []
        \<or> messages (fst (clearChat confirmed r now st)) = messages st)"
proof -
  have "prefix (messages st) (messages (fst (sendMessage net st)))"
    by (cases "net \<lparr>req_message = trim (input st), req_sessionId = sessionId st,
               req_options = settings st, req_timeout = 60000\<rparr>")
      (simp_all add: sendMessage_def sendMessage_dispatch_def sendMessage_settle_def Let_def)
  moreover have "messages (fst (clearChat confirmed r now st)) = []
        \<or> messages (fst (clearChat confirmed r now st)) = messages st"
    by (cases r) (simp_all add: clearChat_def clearChat_settle_def)
  ultimately show ?thesis using step_messages [of e st] run_messages [of es st] by simp
qed

theorem messages_append_only_witness:
  "list_all (\<lambda>e. \<not> is_clear e)
     [Submitted, MaxLengthChanged 1024, DeleteSettled (Inl network_error) 1700000000005,
      PostSettled (Inr hello_reply)]
   \<and> messages (run [Submitted, MaxLengthChanged 1024,
         DeleteSettled (Inl network_error) 1700000000005, PostSettled (Inr hello_reply)]
        hello_state) =
       [\<lparr>role = User, content = js ''Hello'', modelName = None\<rparr>,
        \<lparr>role = Assistant, content = js ''Hi there'', modelName = Some (js ''legal-v1'')\<rparr>]
   \<and> prefix (messages hello_state)
       (messages (run [Submitted, MaxLengthChanged 1024,
         DeleteSettled (Inl network_error) 1700000000005, PostSettled (Inr hello_reply)]
        hello_state))"
proof -
  have a: "list_all (\<lambda>e. \<not> is_clear e)
     [Submitted, MaxLengthChanged 1024, DeleteSettled (Inl network_error) 1700000000005,
      PostSettled (Inr hello_reply)]" by simp
  have i: "input hello_state = js '' Hello ''" "messages hello_state = []" "\<not> isLoading hello_state"
    by (simp_all add: hello_state_def App_init_def)
  have t: "js ''Hello'' \<noteq> []" by (simp add: js_def)
  have b: "messages (run [Submitted, MaxLengthChanged 1024,
         DeleteSettled (Inl network_error) 1700000000005, PostSettled (Inr hello_reply)]
        hello_state) =
       [\<lparr>role = User, content = js ''Hello'', modelName = None\<rparr>,
        \<lparr>role = Assistant, content = js ''Hi there'', modelName = Some (js ''legal-v1'')\<rparr>]"
    by (simp add: sendMessage_dispatch_def sendMessage_settle_def clearChat_settle_def
        onChange_maxLength_def setSettings_def hello_reply_def i trim_hello t Let_def)
  show ?thesis
    using a b messages_append_only [of Submitted hello_state
        "[Submitted, MaxLengthChanged 1024, DeleteSettled (Inl network_error) 1700000000005,
          PostSettled (Inr hello_reply)]" "\<lambda>_. Inr hello_reply" True "Inr ()" 0]
    by simp
qed

end
